theory Spec2Isabelle
  imports Complex_Main "HOL-Library.Word"
begin

unbundle bit_operations_syntax

section \<open>PrecisionADC: data model\<close>

text \<open>
  The library targets AVR microcontrollers: \<open>uint8_t\<close>, \<open>uint16_t\<close> and \<open>uint32_t\<close> are
  8, 16 and 32 bit words, \<open>int8_t\<close> is an 8 bit word read in two's complement.
  Two operations of the C++ source have no defined result: the division by zero in
  \<open>readVcc\<close> and a write behind the end of the key buffer in \<open>readSerial\<close>. Both are
  results of type \<open>fault\<close> in the model.
\<close>

type_synonym byte = "8 word"

datatype fault = DivideByZero | BufferOverrun nat

subsection \<open>Constants of PrecisionADC.h\<close>

definition BGREFmV :: "16 word" where
  "BGREFmV = 1100"

definition CR :: byte where
  "CR = 0x0D"

definition LF :: byte where
  "LF = 0x0A"

definition KBUFSZ :: nat where
  "KBUFSZ = 3"

text \<open>
  \<open>const char keyTab[][KBUFSZ]\<close>: every row has \<open>KBUFSZ\<close> bytes, the unused trailing
  elements of a row are 0.
\<close>

definition keyTab :: "byte list list" where
  "keyTab =
    [[0x31, 0, 0],
     [0x32, 0, 0],
     [0x20, 0, 0],
     [27, 91, 65],
     [27, 91, 66],
     [27, 0, 0],
     [0x71, 0, 0],
     [0x6A, 0, 0],
     [0x6B, 0, 0]]"

definition keyTabLen :: nat where
  "keyTabLen = length (concat keyTab) div KBUFSZ"

definition NO_KEY :: byte where
  "NO_KEY = - 1"

definition KEY_1 :: byte where
  "KEY_1 = 0"

definition KEY_2 :: byte where
  "KEY_2 = 1"

definition KEY_SPC :: byte where
  "KEY_SPC = 2"

definition KEY_AUP :: byte where
  "KEY_AUP = 3"

definition KEY_ADN :: byte where
  "KEY_ADN = 4"

definition KEY_ESC :: byte where
  "KEY_ESC = 5"

definition KEY_q :: byte where
  "KEY_q = 6"

definition KEY_j :: byte where
  "KEY_j = 7"

definition KEY_k :: byte where
  "KEY_k = 8"

definition FT_STATE_MENU :: char where
  "FT_STATE_MENU = CHR ''A''"

definition FT_STATE_TUNE :: char where
  "FT_STATE_TUNE = CHR ''B''"

section \<open>Voltage estimator\<close>

text \<open>
  \<open>readVcc\<close>: \<open>uint32_t vcc = (bgRefmV * 1024L) / bgVal; return (uint16_t)vcc;\<close>
  The sample \<open>bgVal\<close> that \<open>bgADC()\<close> reads from the converter is the second argument.
  The product is computed in 32 bits, the quotient is an unsigned 32 bit division and
  the cast keeps its low 16 bits. There is no test of \<open>bgVal\<close> before the division.
\<close>

definition readVcc :: "16 word \<Rightarrow> 32 word \<Rightarrow> fault + 16 word" where
  "readVcc bgRefmV bgVal =
     (if bgVal = 0 then Inl DivideByZero
      else Inr (ucast ((ucast bgRefmV * 1024) div bgVal :: 32 word)))"

text \<open>
  The specification's estimate, in its own words: the exact quotient
  \<open>referenceConstant * FULL_SCALE / rawBandgapSample\<close> rounded to the nearest integer.
\<close>

definition FULL_SCALE :: nat where
  "FULL_SCALE = 1024"

definition estimateSupply_spec :: "nat \<Rightarrow> nat \<Rightarrow> int" where
  "estimateSupply_spec a r = round (real (r * FULL_SCALE) / real a)"

section \<open>Key decoder\<close>

text \<open>
  The transport and the clock. \<open>pending\<close> bytes carry the time (in milliseconds since
  start) at which they reach the receive buffer, in arrival order; a byte is available
  once the clock has reached its time. \<open>millis()\<close> is the clock reduced to 32 bits.
  Computation takes no time: the clock only moves while the loop of \<open>readSerial\<close>
  spins on an empty receive buffer.
\<close>

type_synonym transport = "(nat \<times> byte) list"

definition millis :: "nat \<Rightarrow> 32 word" where
  "millis now = of_nat now"

fun available :: "nat \<Rightarrow> transport \<Rightarrow> bool" where
  "available now [] = False"
| "available now ((t, b) # rest) = (t \<le> now)"

text \<open>
  The first moment from \<open>now\<close> on at which \<open>millis() < exitAt\<close> is false, when no byte
  is read in between.
\<close>

definition deadline :: "32 word \<Rightarrow> nat \<Rightarrow> nat" where
  "deadline exitAt now =
     (if millis now < exitAt then now + unat (exitAt - millis now) else now)"

text \<open>
  The inner \<open>while (c < KBUFSZ && keyTab[k][c] == buf[c]) c++;\<close>
\<close>

function matchRun :: "byte list \<Rightarrow> byte list \<Rightarrow> nat \<Rightarrow> nat" where
  "matchRun keyDef buf c =
     (if c < KBUFSZ \<and> keyDef ! c = buf ! c then matchRun keyDef buf (c + 1) else c)"
  by pat_completeness auto
termination
  by (relation "measure (\<lambda>(keyDef, buf, c). KBUFSZ - c)") auto

text \<open>
  The body of \<open>for (uint8_t k = 0; k < keyTabLen; k++)\<close> on the pair
  \<open>(matchedKey, partial)\<close>.
\<close>

definition scanKey :: "byte list \<Rightarrow> nat \<Rightarrow> byte \<times> byte \<Rightarrow> byte \<times> byte" where
  "scanKey buf k mp =
     (if buf ! 0 \<noteq> keyTab ! k ! 0 then mp
      else if matchRun (keyTab ! k) buf 0 = KBUFSZ then (of_nat k, snd mp)
      else (fst mp, snd mp + 1))"

definition scanTab :: "byte list \<Rightarrow> byte \<times> byte" where
  "scanTab buf = fold (scanKey buf) [0..<keyTabLen] (NO_KEY, 0)"

text \<open>The local variables of \<open>readSerial\<close> that live across iterations.\<close>

record decoder =
  buf :: "byte list"
  bufIdx :: nat
  exitAt :: "32 word"
  matchedKey :: byte

text \<open>
  The \<open>while (millis() < exitAt)\<close> loop. Each recursive call has read one byte, so the
  recursion is on the pending bytes. The result is the returned key, the clock at
  the return and the bytes not read. \<open>buf[bufIdx] = Serial.read()\<close> with
  \<open>bufIdx \<ge> KBUFSZ\<close> is the fault \<open>BufferOverrun bufIdx\<close>.
\<close>

fun readSerial_loop ::
  "byte \<Rightarrow> decoder \<Rightarrow> nat \<Rightarrow> transport \<Rightarrow> fault + (byte \<times> nat \<times> transport)" where
  "readSerial_loop tout s now [] =
     Inr (matchedKey s, deadline (exitAt s) now, [])"
| "readSerial_loop tout s now ((t, b) # rest) =
     (if deadline (exitAt s) now \<le> max now t
      then Inr (matchedKey s, deadline (exitAt s) now, (t, b) # rest)
      else if KBUFSZ \<le> bufIdx s then Inl (BufferOverrun (bufIdx s))
      else if b = CR \<or> b = LF
      then readSerial_loop tout (s\<lparr>buf := (buf s)[bufIdx s := 0]\<rparr>) (max now t) rest
      else
        (let buf' = (buf s)[bufIdx s := b];
             mp = scanTab buf'
         in if fst mp \<noteq> NO_KEY \<and> snd mp = 0 \<and> \<not> available (max now t) rest
            then Inr (fst mp, max now t, rest)
            else if snd mp = 0 \<or> bufIdx s = KBUFSZ
            then Inr (NO_KEY, max now t, rest)
            else readSerial_loop tout
                   (s\<lparr>buf := buf', bufIdx := bufIdx s + 1,
                      exitAt := millis (max now t) + ucast tout, matchedKey := fst mp\<rparr>)
                   (max now t) rest))"

definition readSerial :: "byte \<Rightarrow> nat \<Rightarrow> transport \<Rightarrow> fault + (byte \<times> nat \<times> transport)" where
  "readSerial tout now pending =
     (if \<not> available now pending then Inr (NO_KEY, now, pending)
      else readSerial_loop tout
             \<lparr>buf = [0, 0, 0], bufIdx = 0, exitAt = millis now + ucast tout,
              matchedKey = NO_KEY\<rparr>
             now pending)"

section \<open>Persistence adapter\<close>

text \<open>
  \<open>typedef struct { char label[5]; uint16_t bgRef; } bgMem;\<close> On the AVR the structure
  has no padding and integers are little endian: 7 bytes, the label first.
\<close>

record bgMem =
  label :: "byte list"
  bgRef :: "16 word"

definition bgMem_size :: nat where
  "bgMem_size = 7"

definition bgMem_bytes :: "bgMem \<Rightarrow> byte list" where
  "bgMem_bytes m = label m @ [ucast (bgRef m), ucast (drop_bit 8 (bgRef m))]"

definition bgMem_of_bytes :: "byte list \<Rightarrow> bgMem" where
  "bgMem_of_bytes bs =
     \<lparr>label = take 5 bs, bgRef = ucast (bs ! 5) OR push_bit 8 (ucast (bs ! 6))\<rparr>"

text \<open>
  \<open>bgMem bgEEPROMID {"bgID"};\<close> The label of the global is never assigned, only its
  \<open>bgRef\<close> field is, so the label is a constant here and \<open>idRef\<close> of the device below is
  the field.
\<close>

definition bgID :: "byte list" where
  "bgID = [0x62, 0x67, 0x49, 0x44, 0]"

text \<open>
  \<open>const uint16_t EEPROMAddy = E2END - sizeof(bgMem);\<close> \<open>E2END\<close>, the last address of the
  EEPROM, comes from the headers of the microcontroller and is a parameter.
\<close>

definition EEPROMAddy :: "16 word \<Rightarrow> 16 word" where
  "EEPROMAddy e2end = e2end - of_nat bgMem_size"

text \<open>
  The EEPROM is a store from addresses to bytes. \<open>EEPROM.put\<close> writes the bytes of an
  object to consecutive addresses, \<open>EEPROM.get\<close> reads as many back.
\<close>

type_synonym eeprom = "nat \<Rightarrow> byte"

fun EEPROM_put :: "nat \<Rightarrow> byte list \<Rightarrow> eeprom \<Rightarrow> eeprom" where
  "EEPROM_put addr [] ee = ee"
| "EEPROM_put addr (b # bs) ee = EEPROM_put (addr + 1) bs (ee(addr := b))"

definition EEPROM_get :: "nat \<Rightarrow> nat \<Rightarrow> eeprom \<Rightarrow> byte list" where
  "EEPROM_get addr n ee = map (\<lambda>i. ee (addr + i)) [0..<n]"

text \<open>
  \<open>strcmp\<close> of the C library on two character arrays: the difference of the first two
  bytes that differ, 0 when both strings end together. The first argument of the one
  call in the source is the label \<open>bgID\<close>, which holds its terminating 0, so the
  comparison ends inside both arrays and the last equation is not reached.
\<close>

fun strcmp :: "byte list \<Rightarrow> byte list \<Rightarrow> int" where
  "strcmp (x # xs) (y # ys) =
     (if x \<noteq> y then uint x - uint y else if x = 0 then 0 else strcmp xs ys)"
| "strcmp xs ys = 0"

text \<open>
  The state the methods work on: the member \<open>bgRefmV\<close> of the object, the \<open>bgRef\<close> field
  of the global \<open>bgEEPROMID\<close>, the EEPROM and everything printed to \<open>Serial\<close> so far.
\<close>

datatype sout = PStr string | PNum "16 word"

record device =
  bgRefmV :: "16 word"
  idRef :: "16 word"
  rom :: eeprom
  serialOut :: "sout list"

definition toEEPROM :: "16 word \<Rightarrow> device \<Rightarrow> device" where
  "toEEPROM e2end d =
     d\<lparr>idRef := bgRefmV d,
       rom := EEPROM_put (unat (EEPROMAddy e2end))
                (bgMem_bytes \<lparr>label = bgID, bgRef = bgRefmV d\<rparr>) (rom d)\<rparr>"

definition fromEEPROM :: "16 word \<Rightarrow> device \<Rightarrow> bool \<times> device" where
  "fromEEPROM e2end d =
     (let savedRef = bgMem_of_bytes (EEPROM_get (unat (EEPROMAddy e2end)) bgMem_size (rom d))
      in if strcmp bgID (label savedRef) = 0
         then (True, d\<lparr>bgRefmV := bgRef savedRef\<rparr>)
         else (False, d))"

section \<open>Calibration controller\<close>

definition NLCR :: string where
  "NLCR = [CHR 0x0A, CHR 0x0D]"

definition CRLF :: string where
  "CRLF = [CHR 0x0D, CHR 0x0A]"

definition menu :: string where
  "menu = concat
    [NLCR, ''== Bandgap calibration =='', NLCR,
     ''[Space] to enter calibration display.'', NLCR,
     ''[1] to retrieved saved bandgap value from EEPROM.'', NLCR,
     ''[2] to save current bandgap value to EEPROM.'', NLCR,
     ''[Escape]/[q] to exit calibration.'', NLCR, NLCR,
     ''While in calibration display, press:'', NLCR,
     ''[Space] to return to this menu.'', NLCR,
     ''[Up/Down arrows]/[k or j] to adjust bandgap voltage while'', NLCR,
     ''  measuring the supply voltage (Vcc) externally with'', NLCR,
     ''  a multimeter.'', NLCR, NLCR,
     ''[Space], [1], [2] or [Escape]/[q]?'', NLCR, NLCR]"

definition savedMsg :: string where
  "savedMsg = concat [NLCR, ''Saved to EEPROM.'', NLCR, NLCR]"

definition retrievedMsg :: string where
  "retrievedMsg = concat [''Retrieved saved value from EEPROM.'', NLCR, NLCR]"

definition notFoundMsg :: string where
  "notFoundMsg = concat [NLCR, ''No saved bandgap value found in EEPROM.'', NLCR]"

definition updateFreq :: "16 word" where
  "updateFreq = 1000"

definition print :: "sout list \<Rightarrow> device \<Rightarrow> device" where
  "print items d = d\<lparr>serialOut := serialOut d @ items\<rparr>"

text \<open>
  What one iteration of the loop of \<open>calibrateBG\<close> observes: the key \<open>readSerial()\<close>
  returns, the value of \<open>millis()\<close> in the test \<open>millis() >= nextUpdate\<close>, the sample
  \<open>bgADC()\<close> delivers if \<open>readVcc()\<close> is called, and the value of \<open>millis()\<close> in
  \<open>nextUpdate = millis() + updateFreq\<close> after the line is printed.
\<close>

record poll =
  key :: byte
  ms :: "32 word"
  adc :: "32 word"
  msAfter :: "32 word"

text \<open>The locals \<open>state\<close> and \<open>nextUpdate\<close> of \<open>calibrateBG\<close>.\<close>

record tuner =
  state :: char
  nextUpdate :: "32 word"

datatype 'a ctl = Continue 'a | Return 'a

text \<open>The body of \<open>while (true)\<close> in \<open>calibrateBG\<close>.\<close>

definition calibrate_iter ::
  "16 word \<Rightarrow> poll \<Rightarrow> tuner \<times> device \<Rightarrow> fault + (tuner \<times> device) ctl" where
  "calibrate_iter e2end p td =
     (let l = fst td; d = snd td in
      if key p = NO_KEY then
        (if state l = FT_STATE_TUNE \<and> nextUpdate l \<le> ms p then
           (case readVcc (bgRefmV d) (adc p) of
              Inl f \<Rightarrow> Inl f
            | Inr vcc \<Rightarrow>
                Inr (Continue
                  (l\<lparr>nextUpdate := msAfter p + ucast updateFreq\<rparr>,
                   print [PStr ''Vcc: '', PNum vcc, PStr ''mv, BG ref: '',
                          PNum (bgRefmV d), PStr (''mV'' @ NLCR)] d)))
         else Inr (Continue (l, d)))
      else if key p = KEY_SPC then
        (let st = (if state l = FT_STATE_MENU then FT_STATE_TUNE else FT_STATE_MENU)
         in Inr (Continue
              (l\<lparr>state := st\<rparr>, if st = FT_STATE_MENU then print [PStr menu] d else d)))
      else if key p = KEY_ESC \<or> key p = KEY_q then
        (if state l = FT_STATE_MENU then Inr (Return (l, d))
         else Inr (Continue (l\<lparr>state := FT_STATE_MENU\<rparr>, print [PStr menu] d)))
      else if state l = FT_STATE_MENU then
        (if key p \<noteq> KEY_1 \<and> key p \<noteq> KEY_2 then Inr (Continue (l, d))
         else if key p = KEY_2 then
           Inr (Continue
             (l\<lparr>state := FT_STATE_TUNE\<rparr>, print [PStr savedMsg] (toEEPROM e2end d)))
         else
           (case fromEEPROM e2end d of
              (True, d') \<Rightarrow>
                Inr (Continue (l\<lparr>state := FT_STATE_TUNE\<rparr>, print [PStr retrievedMsg] d'))
            | (False, d') \<Rightarrow> Inr (Continue (l, print [PStr notFoundMsg] d'))))
      else
        (if key p = KEY_AUP \<or> key p = KEY_k then
           Inr (Continue
             (l, (print [PStr ''[up]'', PStr CRLF] d)\<lparr>bgRefmV := bgRefmV d + 1\<rparr>))
         else if key p = KEY_ADN \<or> key p = KEY_j then
           Inr (Continue
             (l, (print [PStr ''[down]'', PStr CRLF] d)\<lparr>bgRefmV := bgRefmV d - 1\<rparr>))
         else Inr (Continue (l, d))))"



text \<open>
  The two constructors: \<open>PrecisionADC(uint16_t mV) : bgRefmV(mV) {}\<close> and
  \<open>PrecisionADC() : bgRefmV(BGREFmV) { fromEEPROM(); }\<close>, on a given EEPROM and with
  nothing printed yet. An EEPROM that was never written reads \<open>0xFF\<close> everywhere.
\<close>

definition erased :: eeprom where
  "erased = (\<lambda>a. 0xFF)"

definition PrecisionADC_mV :: "16 word \<Rightarrow> eeprom \<Rightarrow> device" where
  "PrecisionADC_mV mV ee = \<lparr>bgRefmV = mV, idRef = 0, rom = ee, serialOut = []\<rparr>"

definition PrecisionADC_default :: "16 word \<Rightarrow> eeprom \<Rightarrow> device" where
  "PrecisionADC_default e2end ee = snd (fromEEPROM e2end (PrecisionADC_mV BGREFmV ee))"


section \<open>Properties of the voltage estimator\<close>

lemma unat_scaled: "unat (ucast (r :: 16 word) * 1024 :: 32 word) = unat r * 1024"
proof -
  have "unat r < 65536" using unsigned_less [of r] by simp
  then have "unat r * 1024 < 2 ^ 32" by simp
  then show ?thesis
    by (simp add: unat_word_ariths unsigned_ucast_eq take_bit_nat_eq_self)
qed

text \<open>
  On every sample but 0 the result is the truncated quotient, reduced to the 16 bits
  of the return type.
\<close>

lemma readVcc_unat:
  "a \<noteq> 0 \<Longrightarrow> \<exists>v. readVcc r a = Inr v \<and> unat v = (unat r * 1024 div unat a) mod 65536"
  by (simp add: readVcc_def unsigned_ucast_eq unat_div unat_scaled take_bit_eq_mod)

lemma quotient_fits:
  assumes "19 \<le> a" "r \<le> 1200"
  shows "r * 1024 div a < (65536 :: nat)"
proof -
  have "r * 1024 div a \<le> 1200 * 1024 div a"
    using assms(2) by (intro div_le_mono) simp
  also have "\<dots> \<le> 1200 * 1024 div 19"
    using assms(1) by (intro div_le_mono2) simp_all
  also have "\<dots> < 65536" by simp
  finally show ?thesis .
qed

lemma readVcc_quot:
  assumes "19 \<le> unat a" "unat r \<le> 1200"
  shows "\<exists>v. readVcc r a = Inr v \<and> unat v = unat r * 1024 div unat a"
proof -
  from assms(1) have "a \<noteq> 0" by auto
  from readVcc_unat [OF this, of r] obtain v where
    v: "readVcc r a = Inr v" "unat v = (unat r * 1024 div unat a) mod 65536" by blast
  with quotient_fits [OF assms] show ?thesis by simp
qed

text \<open>
  C1, as the code has it: \<open>readVcc\<close> divides by the bandgap sample without testing it.
  For every reference constant the sample 0 is the division by zero itself and no
  value, sentinel or other, is returned; every other sample returns a value.
\<close>

theorem readVcc_fault_iff:
  "readVcc r 0 = Inl DivideByZero \<and> ((\<exists>v. readVcc r a = Inr v) = (a \<noteq> 0))"
  by (simp add: readVcc_def)

text \<open>C1 as stated fails: with the nominal constant 1100 and the sample 0 the division faults.\<close>

theorem readVcc_zero_sample: "readVcc 1100 0 = Inl DivideByZero"
  by (simp add: readVcc_def)

text \<open>
  C2, as the code has it: for a sample \<open>a\<close> with \<open>19 \<le> a \<le> FULL_SCALE\<close> and a
  reference constant \<open>r \<le> 1200\<close> the estimate is the exact quotient
  \<open>r * FULL_SCALE / a\<close> rounded down, not to the nearest integer.
\<close>

theorem readVcc_floor:
  assumes "19 \<le> unat a" "unat a \<le> FULL_SCALE" "unat r \<le> 1200"
  shows "\<exists>v. readVcc r a = Inr v \<and>
             int (unat v) = \<lfloor>real (unat r * FULL_SCALE) / real (unat a)\<rfloor>"
proof -
  from readVcc_quot [OF assms(1) assms(3)] obtain v where
    v: "readVcc r a = Inr v" "unat v = unat r * 1024 div unat a" by blast
  have fl: "\<lfloor>real (unat r * FULL_SCALE) / real (unat a)\<rfloor> = int (unat r * 1024 div unat a)"
    unfolding FULL_SCALE_def by (rule floor_divide_of_nat_eq)
  have "int (unat v) = \<lfloor>real (unat r * FULL_SCALE) / real (unat a)\<rfloor>"
    unfolding fl v(2) ..
  with v(1) show ?thesis by blast
qed

text \<open>The constant 1100 and the sample 225, about 5 V.\<close>

theorem readVcc_floor_witness:
  "19 \<le> unat (225 :: 32 word) \<and> unat (225 :: 32 word) \<le> FULL_SCALE \<and>
   unat (1100 :: 16 word) \<le> 1200 \<and>
   (\<exists>v. readVcc 1100 225 = Inr v \<and>
        int (unat v) =
          \<lfloor>real (unat (1100 :: 16 word) * FULL_SCALE) / real (unat (225 :: 32 word))\<rfloor>)"
  using readVcc_floor [of 225 1100] by (simp add: FULL_SCALE_def)

text \<open>
  C2 as stated fails: \<open>1000 * 1024 / 1023\<close> is 1000.97..., which rounds to 1001, and
  \<open>readVcc\<close> returns 1000. Below the sample 19 the 16 bits of the return type do not
  hold the quotient: \<open>1100 * 1024 / 16\<close> is 70400 and \<open>readVcc\<close> returns 4864.
\<close>

theorem readVcc_truncates:
  "readVcc 1000 1023 = Inr 1000 \<and> estimateSupply_spec 1023 1000 = 1001 \<and>
   readVcc 1100 16 = Inr 4864 \<and> estimateSupply_spec 16 1100 = 70400"
proof -
  have "estimateSupply_spec 1023 1000 = 1001"
    unfolding estimateSupply_spec_def FULL_SCALE_def
    by (rule round_unique) simp_all
  moreover have "estimateSupply_spec 16 1100 = 70400"
    unfolding estimateSupply_spec_def FULL_SCALE_def
    by (rule round_unique) simp_all
  ultimately show ?thesis by (simp add: readVcc_def)
qed

text \<open>
  C3, as the code has it: for a fixed reference constant \<open>r \<le> 1200\<close> the estimate does
  not increase with the sample on the samples from 19 to \<open>FULL_SCALE\<close>, where the
  quotient fits the 16 bits of the return type.
\<close>

theorem readVcc_antimono:
  assumes "unat r \<le> 1200" "19 \<le> unat a1" "a1 < a2" "unat a2 \<le> FULL_SCALE"
  shows "\<exists>v1 v2. readVcc r a1 = Inr v1 \<and> readVcc r a2 = Inr v2 \<and> v2 \<le> v1"
proof -
  from assms(3) have lt: "unat a1 < unat a2" by (simp add: word_less_nat_alt)
  with assms(2) have a2: "19 \<le> unat a2" by simp
  from readVcc_quot [OF assms(2) assms(1)] obtain v1 where
    v1: "readVcc r a1 = Inr v1" "unat v1 = unat r * 1024 div unat a1" by blast
  from readVcc_quot [OF a2 assms(1)] obtain v2 where
    v2: "readVcc r a2 = Inr v2" "unat v2 = unat r * 1024 div unat a2" by blast
  have "unat r * 1024 div unat a2 \<le> unat r * 1024 div unat a1"
    using lt assms(2) by (intro div_le_mono2) simp_all
  with v1 v2 have "v2 \<le> v1" by (simp add: word_le_nat_alt)
  with v1 v2 show ?thesis by blast
qed

text \<open>The constant 1100 on the samples 200 and 250.\<close>

theorem readVcc_antimono_witness:
  "unat (1100 :: 16 word) \<le> 1200 \<and> 19 \<le> unat (200 :: 32 word) \<and>
   (200 :: 32 word) < 250 \<and> unat (250 :: 32 word) \<le> FULL_SCALE \<and>
   (\<exists>v1 v2. readVcc 1100 200 = Inr v1 \<and> readVcc 1100 250 = Inr v2 \<and> v2 \<le> v1)"
  using readVcc_antimono [of 1100 200 250] by (simp add: FULL_SCALE_def)

text \<open>
  C3 as stated fails: with the constant 1100 the quotient for the sample 17 is 66258,
  of which the return type keeps 722, less than the 62577 returned for the sample 18.
\<close>

theorem readVcc_wraps:
  "readVcc 1100 17 = Inr 722 \<and> readVcc 1100 18 = Inr 62577 \<and> (722 :: 16 word) < 62577"
  by (simp add: readVcc_def)

section \<open>Properties of the key decoder\<close>




lemma scanTab_space: "scanTab [32, 0, 0] = (KEY_SPC, 0)"
  by code_simp

lemma key_distinct:
  "KEY_SPC \<noteq> NO_KEY" "KEY_ESC \<noteq> NO_KEY" "KEY_ESC \<noteq> KEY_SPC"
  "KEY_AUP \<noteq> NO_KEY" "KEY_AUP \<noteq> KEY_SPC" "KEY_AUP \<noteq> KEY_ESC" "KEY_AUP \<noteq> KEY_q"
  "KEY_1 \<noteq> NO_KEY" "KEY_1 \<noteq> KEY_SPC" "KEY_1 \<noteq> KEY_ESC" "KEY_1 \<noteq> KEY_q"
  "KEY_1 \<noteq> KEY_2"
  by (simp_all add: NO_KEY_def KEY_1_def KEY_2_def KEY_SPC_def KEY_AUP_def KEY_ESC_def
      KEY_q_def)

lemma byte_consts:
  "(27 :: byte) \<noteq> CR" "(27 :: byte) \<noteq> LF" "(91 :: byte) \<noteq> CR" "(91 :: byte) \<noteq> LF"
  "(65 :: byte) \<noteq> CR" "(65 :: byte) \<noteq> LF" "(32 :: byte) \<noteq> CR" "(32 :: byte) \<noteq> LF"
  by (simp_all add: CR_def LF_def)

text \<open>
  When \<open>millis() + tout\<close> does not pass \<open>2 ^ 32\<close>, the loop started or restarted at \<open>now\<close>
  gives up \<open>tout\<close> milliseconds later.
\<close>

lemma deadline_no_wrap:
  assumes "now mod 2 ^ 32 + unat tout < 2 ^ 32"
  shows "deadline (millis now + ucast (tout :: byte)) now = now + unat tout"
proof -
  have n: "unat (millis now) = now mod 2 ^ 32"
    by (simp add: millis_def unat_of_nat take_bit_eq_mod)
  have "unat tout < 2 ^ 32" using assms by simp
  then have t: "unat (ucast tout :: 32 word) = unat tout"
    by (simp add: unsigned_ucast_eq take_bit_nat_eq_self)
  have s: "unat (millis now + ucast tout) = now mod 2 ^ 32 + unat tout"
    using assms n t by (simp add: unat_word_ariths take_bit_nat_eq_self)
  have d: "millis now + ucast tout - millis now = (ucast tout :: 32 word)" by simp
  show ?thesis
    unfolding deadline_def d t
    by (simp add: word_less_nat_alt s n)
qed

text \<open>
  When \<open>millis() < exitAt\<close> is false at the call, because \<open>tout\<close> is 0 or the sum
  \<open>millis() + tout\<close> passed \<open>2 ^ 32\<close>, the loop is not entered and no byte is read.
\<close>

lemma readSerial_expired:
  assumes "available now pending" "\<not> millis now < millis now + ucast tout"
  shows "readSerial tout now pending = Inr (NO_KEY, now, pending)"
proof (cases pending)
  case Nil
  with assms(1) show ?thesis by simp
next
  case (Cons tb rest)
  obtain t b where tb: "tb = (t, b)" by (cases tb)
  show ?thesis
    using assms unfolding Cons tb
    by (simp add: readSerial_def deadline_def)
qed

lemma wrapped_call: "\<not> millis 4294967246 < millis 4294967246 + ucast (100 :: byte)"
  by (simp add: millis_def)

lemma zero_timeout: "\<not> millis now < millis now + ucast (0 :: byte)"
  by simp



text \<open>
  C4 on the code: two spaces wait in the receive buffer when \<open>readSerial(100)\<close> is
  called. After the first the buffer matches the entry \<open>KEY_SPC\<close> in full and no entry
  in part, a byte is still buffered, and the key returned is \<open>NO_KEY\<close>. The same happens
  to the key 1 followed by a carriage return.
\<close>

theorem readSerial_loses_match:
  "scanTab [32, 0, 0] = (KEY_SPC, 0) \<and>
   readSerial 100 0 [(0, 32), (0, 32)] = Inr (NO_KEY, 0, [(0, 32)]) \<and>
   readSerial 100 0 [(0, 0x31), (0, 0x0D)] = Inr (NO_KEY, 0, [(0, 0x0D)])"
  by code_simp

text \<open>
  C5 on the code: the three bytes of the up arrow and one more byte within the
  timeout, all four buffered at the call or the fourth 99 ms after the third. The
  fourth byte is written to \<open>buf[3]\<close>, behind the \<open>KBUFSZ = 3\<close> elements of the buffer.
\<close>

theorem readSerial_overruns:
  "readSerial 100 0 [(0, 27), (0, 91), (0, 65), (0, 27)] = Inl (BufferOverrun 3) \<and>
   readSerial 100 0 [(0, 27), (5, 91), (10, 65), (109, 27)] = Inl (BufferOverrun 3) \<and>
   KBUFSZ = 3"
  by code_simp




text \<open>
  C7, as the code has it: the timeout \<open>tout\<close> is not 0 and \<open>millis() + tout\<close> does not
  pass \<open>2 ^ 32\<close> at the call. Then the byte 32 received before the call, with no other
  byte in the receive buffer at that moment, gives \<open>KEY_SPC\<close> with the clock still at
  the time of the call.
\<close>

theorem readSerial_space:
  assumes "t1 \<le> now" "0 < unat tout" "now mod 2 ^ 32 + unat tout < 2 ^ 32"
    "\<not> available now rest"
  shows "readSerial tout now ((t1, 32) # rest) = Inr (KEY_SPC, now, rest)"
  using assms
  by (simp add: readSerial_def deadline_no_wrap KBUFSZ_def byte_consts scanTab_space
      key_distinct max_absorb1)

text \<open>
  The default timeout of 100 ms, 5000000 s after the start, when the 32 bit clock has
  wrapped once; the next byte comes half a second after the space.
\<close>

theorem readSerial_space_witness:
  "(4999999990 :: nat) \<le> 5000000000 \<and> 0 < unat (100 :: byte) \<and>
   (5000000000 :: nat) mod 2 ^ 32 + unat (100 :: byte) < 2 ^ 32 \<and>
   \<not> available 5000000000 [(5000000500, 0x31)] \<and>
   readSerial 100 5000000000 [(4999999990, 32), (5000000500, 0x31)] =
     Inr (KEY_SPC, 5000000000, [(5000000500, 0x31)])"
  using readSerial_space [of 4999999990 5000000000 100 "[(5000000500, 0x31)]"] by simp

text \<open>
  C7 as stated fails. Called 50 ms before the 32 bit clock wraps with a space
  buffered, \<open>readSerial(100)\<close> returns \<open>NO_KEY\<close> and leaves the space unread; so does
  \<open>readSerial(0)\<close> at any time.
\<close>

theorem readSerial_space_wrap:
  "readSerial 100 4294967246 [(4294967246, 32)] =
     Inr (NO_KEY, 4294967246, [(4294967246, 32)]) \<and>
   readSerial 0 0 [(0, 32)] = Inr (NO_KEY, 0, [(0, 32)])"
  by (simp add: readSerial_expired [OF _ wrapped_call] readSerial_expired [OF _ zero_timeout])

section \<open>Properties of the persistence adapter\<close>

lemma EEPROM_put_below: "i < addr \<Longrightarrow> EEPROM_put addr bs ee i = ee i"
  by (induction bs arbitrary: addr ee) simp_all

lemma EEPROM_get_put: "EEPROM_get addr (length bs) (EEPROM_put addr bs ee) = bs"
proof (induction bs arbitrary: addr ee)
  case Nil
  show ?case by (simp add: EEPROM_get_def)
next
  case (Cons b bs)
  have "EEPROM_get addr (Suc (length bs)) (EEPROM_put (addr + 1) bs (ee(addr := b))) =
        EEPROM_put (addr + 1) bs (ee(addr := b)) addr #
        EEPROM_get (addr + 1) (length bs) (EEPROM_put (addr + 1) bs (ee(addr := b)))"
    by (simp add: EEPROM_get_def upt_conv_Cons map_Suc_upt [symmetric] del: upt_Suc)
  then show ?case
    by (simp add: Cons.IH EEPROM_put_below)
qed

lemma bgRef_bytes: "ucast (ucast r :: byte) OR push_bit 8 (ucast (ucast (drop_bit 8 r) :: byte)) = (r :: 16 word)"
  by (rule bit_word_eqI) (auto simp: bit_simps)

lemma bgMem_roundtrip:
  "length (label m) = 5 \<Longrightarrow> bgMem_of_bytes (bgMem_bytes m) = m"
  by (simp add: bgMem_of_bytes_def bgMem_bytes_def nth_append bgRef_bytes)

lemma strcmp_bgID: "length l = 5 \<Longrightarrow> (strcmp bgID l = 0) = (l = bgID)"
proof -
  assume "length l = 5"
  then obtain a b c d e where l: "l = [a, b, c, d, e]"
    by (auto simp: length_Suc_conv eval_nat_numeral)
  show ?thesis unfolding l bgID_def
    by (auto simp: word_uint_eq_iff)
qed


lemma take_EEPROM_get: "n \<le> m \<Longrightarrow> take n (EEPROM_get addr m ee) = EEPROM_get addr n ee"
  by (simp add: EEPROM_get_def take_map min_absorb2)

lemma saved_label:
  "label (bgMem_of_bytes (EEPROM_get addr bgMem_size ee)) = EEPROM_get addr 5 ee"
  by (simp add: bgMem_of_bytes_def bgMem_size_def take_EEPROM_get)

lemma length_EEPROM_get: "length (EEPROM_get addr n ee) = n"
  by (simp add: EEPROM_get_def)

lemma fromEEPROM_mismatch:
  "EEPROM_get (unat (EEPROMAddy e)) 5 (rom d) \<noteq> bgID \<Longrightarrow> fromEEPROM e d = (False, d)"
  by (simp add: fromEEPROM_def Let_def saved_label strcmp_bgID length_EEPROM_get)

lemma fromEEPROM_toEEPROM:
  "fromEEPROM e ((toEEPROM e d)\<lparr>bgRefmV := x\<rparr>) =
     (True, (toEEPROM e d)\<lparr>bgRefmV := bgRefmV d\<rparr>)"
proof -
  let ?m = "\<lparr>label = bgID, bgRef = bgRefmV d\<rparr>"
  have len: "length (bgMem_bytes ?m) = bgMem_size"
    by (simp add: bgMem_bytes_def bgID_def bgMem_size_def)
  have "EEPROM_get (unat (EEPROMAddy e)) bgMem_size
          (EEPROM_put (unat (EEPROMAddy e)) (bgMem_bytes ?m) (rom d)) = bgMem_bytes ?m"
    using EEPROM_get_put [of "unat (EEPROMAddy e)" "bgMem_bytes ?m" "rom d"] len by simp
  moreover have "bgMem_of_bytes (bgMem_bytes ?m) = ?m"
    by (rule bgMem_roundtrip) (simp add: bgID_def)
  moreover have "strcmp bgID bgID = 0"
    by (simp add: bgID_def)
  ultimately show ?thesis
    by (simp add: fromEEPROM_def toEEPROM_def Let_def)
qed

lemma PrecisionADC_mV_fields:
  "bgRefmV (PrecisionADC_mV mV ee) = mV" "rom (PrecisionADC_mV mV ee) = ee"
  "serialOut (PrecisionADC_mV mV ee) = []"
  by (simp_all add: PrecisionADC_mV_def)

text \<open>
  C9: after \<open>toEEPROM\<close> with the constant \<open>r\<close> in the object, \<open>fromEEPROM\<close> returns true
  and sets the constant to \<open>r\<close>, whatever it was set to in between; 1125 is one such
  \<open>r\<close>. When the five bytes of the label in the slot are not those of \<open>"bgID"\<close> (a slot
  never written, foreign content), \<open>fromEEPROM\<close> returns false and changes nothing.
\<close>

theorem persistence_roundtrip:
  "fromEEPROM e ((toEEPROM e d)\<lparr>bgRefmV := x\<rparr>) =
     (True, (toEEPROM e d)\<lparr>bgRefmV := bgRefmV d\<rparr>) \<and>
   (EEPROM_get (unat (EEPROMAddy e)) 5 (rom d') \<noteq> bgID \<longrightarrow> fromEEPROM e d' = (False, d'))"
  by (simp add: fromEEPROM_toEEPROM fromEEPROM_mismatch)

text \<open>
  The constant 1125 saved on an erased EEPROM of 1024 bytes, set to 1100 and loaded
  again; and a load from the erased EEPROM.
\<close>

theorem persistence_roundtrip_witness:
  "fromEEPROM 0x3FF
     ((toEEPROM 0x3FF (PrecisionADC_mV 1125 erased))
        \<lparr>bgRefmV := 1100\<rparr>) =
     (True,
      (toEEPROM 0x3FF (PrecisionADC_mV 1125 erased))
        \<lparr>bgRefmV := 1125\<rparr>) \<and>
   EEPROM_get (unat (EEPROMAddy 0x3FF)) 5
     (rom (PrecisionADC_mV 1100 erased)) \<noteq> bgID \<and>
   fromEEPROM 0x3FF (PrecisionADC_mV 1100 erased) =
     (False, (PrecisionADC_mV 1100 erased))"
proof -
  have ne: "EEPROM_get (unat (EEPROMAddy 0x3FF)) 5
     (rom (PrecisionADC_mV 1100 erased)) \<noteq> bgID"
    by code_simp
  show ?thesis
    using ne
      persistence_roundtrip [where e = "0x3FF"
        and d = "PrecisionADC_mV 1125 erased"
        and x = 1100
        and d' = "PrecisionADC_mV 1100 erased"]
    by (simp add: PrecisionADC_mV_fields)
qed

section \<open>Properties of the calibration controller\<close>













text \<open>
  C10: in the menu state, the key 1 when the five bytes of the label in the slot are
  not those of \<open>"bgID"\<close>: the iteration leaves the locals (the state is still the menu
  state) and the object (the constant \<open>bgRefmV\<close>, the EEPROM) as they were and prints
  the message that no saved value was found.
\<close>

theorem calibrate_load_absent:
  assumes "state l = FT_STATE_MENU" "key p = KEY_1"
    "EEPROM_get (unat (EEPROMAddy e)) 5 (rom d) \<noteq> bgID"
  shows "calibrate_iter e p (l, d) =
           Inr (Continue (l, d\<lparr>serialOut := serialOut d @ [PStr notFoundMsg]\<rparr>))"
  using assms(1,2) fromEEPROM_mismatch [OF assms(3)]
  by (simp add: calibrate_iter_def Let_def print_def KEY_1_def KEY_2_def NO_KEY_def KEY_SPC_def
      KEY_ESC_def KEY_q_def)

text \<open>The key 1 in the menu state on a device with the constant 1100 and an erased EEPROM.\<close>

theorem calibrate_load_absent_witness:
  "state \<lparr>state = FT_STATE_MENU, nextUpdate = 1000\<rparr> = FT_STATE_MENU \<and>
   key \<lparr>key = KEY_1, ms = 5, adc = 225, msAfter = 5\<rparr> = KEY_1 \<and>
   EEPROM_get (unat (EEPROMAddy 0x3FF)) 5 (rom (PrecisionADC_mV 1100 erased)) \<noteq> bgID \<and>
   calibrate_iter 0x3FF \<lparr>key = KEY_1, ms = 5, adc = 225, msAfter = 5\<rparr>
       (\<lparr>state = FT_STATE_MENU, nextUpdate = 1000\<rparr>, PrecisionADC_mV 1100 erased) =
     Inr (Continue (\<lparr>state = FT_STATE_MENU, nextUpdate = 1000\<rparr>,
       (PrecisionADC_mV 1100 erased)
         \<lparr>serialOut := serialOut (PrecisionADC_mV 1100 erased) @ [PStr notFoundMsg]\<rparr>))"
proof -
  have ne: "EEPROM_get (unat (EEPROMAddy 0x3FF)) 5 (rom (PrecisionADC_mV 1100 erased)) \<noteq> bgID"
    by code_simp
  show ?thesis
    using ne calibrate_load_absent [where l = "\<lparr>state = FT_STATE_MENU, nextUpdate = 1000\<rparr>"
        and p = "\<lparr>key = KEY_1, ms = 5, adc = 225, msAfter = 5\<rparr>" and e = "0x3FF"
        and d = "PrecisionADC_mV 1100 erased"]
    by simp
qed

end
